theory Spec2Isabelle
  imports Complex_Main "HOL-Library.Sublist"
begin

section \<open>JavaScript values used by the components\<close>

text \<open>
  A JavaScript \<open>number\<close> is modelled as a real; where the source can produce a value that
  is not a finite number (\<open>NaN\<close>, \<open>Infinity\<close>) the model returns \<open>None\<close>. Numbers that the
  source only ever obtains from \<open>parseInt\<close> or from a list of integer literals are
  integers. Strings are character lists. A double rounds where a real does not, so only
  properties that rounding preserves (order, bounds, values that are exact in doubles) are
  stated of arithmetic results.
\<close>

definition digits :: string where
  "digits = ''0123456789''"

fun String_nat :: "nat \<Rightarrow> string" where
  "String_nat n =
     (if n < 10 then [digits ! n] else String_nat (n div 10) @ [digits ! (n mod 10)])"

declare String_nat.simps [simp del]

definition String_int :: "int \<Rightarrow> string" where
  \<comment> \<open>\<open>String(n)\<close> and template interpolation of an integer-valued number.\<close>
  "String_int i = (if i < 0 then CHR ''-'' # String_nat (nat (- i)) else String_nat (nat i))"

fun split_on :: "char \<Rightarrow> string \<Rightarrow> string list" where
  \<comment> \<open>\<open>s.split(c)\<close> for a one-character separator: never the empty list.\<close>
  "split_on c [] = [[]]"
| "split_on c (x # xs) =
     (if x = c then [] # split_on c xs
      else (case split_on c xs of [] \<Rightarrow> [[x]] | w # ws \<Rightarrow> (x # w) # ws))"

fun replace_first :: "char \<Rightarrow> string \<Rightarrow> string \<Rightarrow> string" where
  \<comment> \<open>\<open>s.replace(c, r)\<close> with a string pattern: the first occurrence only.\<close>
  "replace_first c r [] = []"
| "replace_first c r (x # xs) = (if x = c then r @ xs else x # replace_first c r xs)"

fun join :: "string \<Rightarrow> string list \<Rightarrow> string" where
  "join sep [] = []"
| "join sep [x] = x"
| "join sep (x # y # ys) = x @ sep @ join sep (y # ys)"

definition pop_or :: "string list \<Rightarrow> string \<Rightarrow> string" where
  \<comment> \<open>\<open>parts.pop() || fallback\<close>: the last element unless it is missing or empty.\<close>
  "pop_or parts fallback =
     (case rev parts of [] \<Rightarrow> fallback | e # _ \<Rightarrow> if e = [] then fallback else e)"

definition digit_value :: "char \<Rightarrow> nat option" where
  "digit_value c =
     (let n = (of_char c :: nat) in if 48 \<le> n \<and> n \<le> 57 then Some (n - 48) else None)"

fun digits_value :: "nat \<Rightarrow> string \<Rightarrow> nat option" where
  "digits_value acc [] = Some acc"
| "digits_value acc (c # cs) =
     (case digit_value c of None \<Rightarrow> None | Some d \<Rightarrow> digits_value (10 * acc + d) cs)"

definition Number :: "string \<Rightarrow> real option" where
  \<comment> \<open>\<open>Number(s)\<close> on the strings a resolution label is made of: the empty string is 0,
      decimal digits with an optional minus sign are their value, and any other string
      is taken as \<open>NaN\<close> (\<open>None\<close>); fractions, exponents and white space are left out.\<close>
  "Number s =
     (case s of
        [] \<Rightarrow> Some 0
      | c # cs \<Rightarrow>
          if c = CHR ''-'' then (if cs = [] then None
                                else map_option (\<lambda>n. - real n) (digits_value 0 cs))
          else map_option real (digits_value 0 s))"

definition is_white_space :: "char \<Rightarrow> bool" where
  \<comment> \<open>Tab, line feed, vertical tab, form feed, carriage return and space.\<close>
  "is_white_space c = (let n = (of_char c :: nat) in (9 \<le> n \<and> n \<le> 13) \<or> n = 32)"

definition parseInt :: "string option \<Rightarrow> int option" where
  \<comment> \<open>\<open>parseInt(s, 10)\<close>: leading white space, an optional sign, then the longest run of
      digits; \<open>NaN\<close> (\<open>None\<close>) when there is no digit or the argument is \<open>undefined\<close>.\<close>
  "parseInt arg =
     (case arg of
        None \<Rightarrow> None
      | Some s \<Rightarrow>
          (let t = dropWhile is_white_space s;
               neg = (t \<noteq> [] \<and> hd t = CHR ''-'');
               u = (if t \<noteq> [] \<and> (hd t = CHR ''-'' \<or> hd t = CHR ''+'') then tl t else t);
               ds = takeWhile (\<lambda>c. digit_value c \<noteq> None) u
           in if ds = [] then None
              else map_option (\<lambda>n. if neg then - int n else int n) (digits_value 0 ds)))"

definition nth_or_undefined :: "'a list \<Rightarrow> nat \<Rightarrow> 'a option" where
  \<comment> \<open>Array destructuring: a missing position is \<open>undefined\<close>.\<close>
  "nth_or_undefined xs i = (if i < length xs then Some (xs ! i) else None)"

datatype jsnum = Finite real | PosInf | NegInf | NaN

definition js_div :: "real \<Rightarrow> real \<Rightarrow> jsnum" where
  \<comment> \<open>\<open>x / y\<close> on finite numbers: a zero divisor gives an infinity or \<open>NaN\<close>.\<close>
  "js_div x y =
     (if y \<noteq> 0 then Finite (x / y)
      else if x > 0 then PosInf else if x < 0 then NegInf else NaN)"

fun Math_max1 :: "jsnum \<Rightarrow> jsnum" where
  \<comment> \<open>\<open>Math.max(1, q)\<close>\<close>
  "Math_max1 (Finite r) = Finite (max 1 r)"
| "Math_max1 PosInf = PosInf"
| "Math_max1 NegInf = Finite 1"
| "Math_max1 NaN = NaN"

fun times_finite :: "real \<Rightarrow> jsnum \<Rightarrow> real option" where
  \<comment> \<open>\<open>x * q\<close> when the product is a finite number, \<open>None\<close> otherwise.\<close>
  "times_finite x (Finite r) = Some (x * r)"
| "times_finite x q = None"

section \<open>FileInput.tsx\<close>

record File =
  fname :: string
  ftype :: string
  fsize :: nat

definition maxSizeBytes :: real where
  "maxSizeBytes = 1.5 * 1024 * 1024 * 1024"

record FileInputOutcome =
  error_shown :: "string option"
  forwarded :: "File option"

definition handleFileChange :: "File option \<Rightarrow> FileInputOutcome" where
  \<comment> \<open>\<open>setError(null)\<close> first, then one \<open>onFileSelected\<close> call on every path.\<close>
  "handleFileChange sel =
     (case sel of
        None \<Rightarrow> \<lparr>error_shown = None, forwarded = None\<rparr>
      | Some file \<Rightarrow>
          if \<not> prefix ''video/'' (ftype file)
          then \<lparr>error_shown = Some ''Please select a video file.'', forwarded = None\<rparr>
          else if real (fsize file) > maxSizeBytes
          then \<lparr>error_shown = Some ''File size must be less than 1.5 GB.'', forwarded = None\<rparr>
          else \<lparr>error_shown = None, forwarded = Some file\<rparr>)"

section \<open>OutputSettingsMenu.tsx: resolution options\<close>

record ResolutionOption =
  label :: string
  width :: int
  height :: int
  option_bitrate :: int

definition standardHeights :: "int list" where
  "standardHeights = [240, 360, 480, 720, 1080]"

definition option_width :: "real \<Rightarrow> int \<Rightarrow> int" where
  \<comment> \<open>\<open>Math.round((h * aspectRatio) / 2) * 2\<close>; \<open>Math.round\<close> rounds halves up, as \<open>round\<close>.\<close>
  "option_width aspectRatio h = round ((real_of_int h * aspectRatio) / 2) * 2"

definition suggestedBitrate :: "int \<Rightarrow> int" where
  "suggestedBitrate h =
     (if h \<le> 360 then 800 else if h \<le> 480 then 1200 else if h \<le> 720 then 2500 else 4500)"

fun resolutionOptions_loop :: "real \<Rightarrow> real \<Rightarrow> real \<Rightarrow> int list \<Rightarrow> ResolutionOption list" where
  "resolutionOptions_loop aspectRatio inputWidth inputHeight [] = []"
| "resolutionOptions_loop aspectRatio inputWidth inputHeight (h # hs) =
     (let w = option_width aspectRatio h in
      if real_of_int h \<le> inputHeight \<and> real_of_int w \<le> inputWidth
      then \<lparr>label = String_int w @ ''x'' @ String_int h, width = w, height = h,
            option_bitrate = suggestedBitrate h\<rparr>
           # resolutionOptions_loop aspectRatio inputWidth inputHeight hs
      else resolutionOptions_loop aspectRatio inputWidth inputHeight hs)"

definition generateResolutionOptions :: "real \<Rightarrow> real \<Rightarrow> real \<Rightarrow> ResolutionOption list" where
  \<comment> \<open>The dimension-aware generator (three arguments).\<close>
  "generateResolutionOptions aspectRatio inputWidth inputHeight =
     resolutionOptions_loop aspectRatio inputWidth inputHeight standardHeights"

section \<open>lib/videoAnalysis: command string and timeout estimator\<close>

record VideoAnalysis =
  inputWidth :: real
  inputHeight :: real
  scaleFactor :: real
  duration :: real
  inputFramerate :: real

record OutputSettings =
  resolution :: string
  framerate :: int
  bitrate :: int
  audioMono :: bool

definition generateFFmpegCommand :: "File \<Rightarrow> OutputSettings \<Rightarrow> string" where
  "generateFFmpegCommand inputFile settings =
     (let args =
            [''-i'',
             ''input.'' @ pop_or (split_on CHR ''.'' (fname inputFile)) ''mp4'',
             ''-c:v'', ''libx264'',
             ''-preset'', ''ultrafast'',
             ''-vf'', ''scale='' @ replace_first CHR ''x'' '':'' (resolution settings),
             ''-r'', String_int (framerate settings),
             ''-b:v'', String_int (bitrate settings) @ ''k'',
             ''-c:a'', ''copy'']
            @ (if audioMono settings then [''-ac'', ''1''] else [])
            @ [''output.mp4'']
      in ''ffmpeg '' @ join '' '' args)"

definition outputPixels_of :: "OutputSettings \<Rightarrow> real option" where
  \<comment> \<open>\<open>const [outW, outH] = settings.resolution.split("x").map(Number); outW * outH\<close>\<close>
  "outputPixels_of settings =
     (let parts = map Number (split_on CHR ''x'' (resolution settings)) in
      case (nth_or_undefined parts 0, nth_or_undefined parts 1) of
        (Some (Some outW), Some (Some outH)) \<Rightarrow> Some (outW * outH)
      | _ \<Rightarrow> None)"

definition complexity :: "VideoAnalysis \<Rightarrow> OutputSettings \<Rightarrow> jsnum" where
  \<comment> \<open>\<open>Math.max(1, scaleFactor)\<close> with \<open>scaleFactor = outputPixels / inputPixels\<close>\<close>
  "complexity analysis settings =
     (let inputPixels = inputWidth analysis * inputHeight analysis in
      case outputPixels_of settings of
        None \<Rightarrow> NaN
      | Some outputPixels \<Rightarrow> Math_max1 (js_div outputPixels inputPixels))"

definition expectedSeconds :: "VideoAnalysis \<Rightarrow> OutputSettings \<Rightarrow> real option" where
  "expectedSeconds analysis settings =
     (let segmentLength = duration analysis * 0.005
      in times_finite segmentLength (complexity analysis settings))"

definition calcTimeoutPerHalfPercent ::
    "VideoAnalysis \<Rightarrow> OutputSettings \<Rightarrow> bool \<Rightarrow> real option" where
  \<comment> \<open>The estimator exported by lib/videoAnalysis; \<open>None\<close> when the result is not finite.\<close>
  "calcTimeoutPerHalfPercent analysis settings isSingleThread =
     map_option (\<lambda>e. if isSingleThread then e * 8 * 1000 else e * 4 * 1000)
       (expectedSeconds analysis settings)"

definition timeoutFloor :: real where
  "timeoutFloor = 10000"

definition timeoutCeiling :: real where
  "timeoutCeiling = 120000"

definition calcTimeoutPerHalfPercent_clamped :: "VideoAnalysis \<Rightarrow> OutputSettings \<Rightarrow> real" where
  \<comment> \<open>The estimator local to the earlier SingleThreadedTranscoder: input over output
      pixels, \<open>outW * outH || 1\<close>, and \<open>Math.max(10000, Math.min(timeoutMs, 120000))\<close>.\<close>
  "calcTimeoutPerHalfPercent_clamped analysis settings =
     (let segmentLength = duration analysis * 0.005;
          inputPixels = inputWidth analysis * inputHeight analysis;
          outputPixels = (case outputPixels_of settings of
                            None \<Rightarrow> 1
                          | Some p \<Rightarrow> if p = 0 then 1 else p);
          scaleRatio = inputPixels / outputPixels;
          complexityFactor = max 1 scaleRatio;
          expected = segmentLength * complexityFactor;
          timeoutMs = expected * 8 * 1000
      in max timeoutFloor (min timeoutMs timeoutCeiling))"

section \<open>The engine and the state of a transcoder component\<close>

text \<open>
  The engine is an external object. Its three operations are recorded in the order in
  which a component issues them, together with the number of \<open>exec\<close> calls that have
  not settled yet. An \<open>await\<close> splits an asynchronous function into the part that runs up
  to it and the continuations that run when the awaited promise settles; the promise's
  settlement is an event supplied by the environment.
\<close>

type_synonym bytes = "nat list"

datatype EngineCall = WriteFile string | Exec "string list" | ReadFile string

datatype 'a settled = Resolves 'a | Rejects string

record TranscoderProps =
  inputFile :: File
  settings :: OutputSettings

record TranscoderState =
  isLoaded :: bool
  isTranscoding :: bool
  progress :: real
  outputUrl :: "bytes option"
  error :: "string option"
  videoAnalysis :: "VideoAnalysis option"
  ffmpegCommand :: string
  logMessages :: "string list"
  timeoutRef :: bool
  timer :: "real option"
  calls :: "EngineCall list"
  inFlight :: nat

text \<open>
  \<open>timer\<close> is the time left on the one pending \<open>setTimeout\<close> callback of the component,
  if any. \<open>timeoutRef\<close> tells whether \<open>timeoutRef.current\<close> is non-null; only the variant
  of the Transcoder that keeps its timer in a ref uses it. Whenever a timer is pending in
  that variant the ref holds it, so \<open>clearTimeout(timeoutRef.current)\<close> removes it.
\<close>

datatype Event =
    Click "unit settled"
  | LogEvent string
  | ProgressEvent real
  | ExecResolved "bytes settled"
  | ExecRejected string
  | Analysed "VideoAnalysis option"

definition inputFilename_of :: "File \<Rightarrow> string" where
  "inputFilename_of f = ''input.'' @ pop_or (split_on CHR ''.'' (fname f)) ''tmp''"

definition transcode_args :: "string \<Rightarrow> OutputSettings \<Rightarrow> string list" where
  \<comment> \<open>The \<open>args\<close> array of \<open>transcode\<close>, the same literal in every transcoder.\<close>
  "transcode_args inputFilename st =
     [''-i'',
      inputFilename,
      ''-c:v'', ''libx264'',
      ''-preset'', ''ultrafast'',
      ''-vf'', ''scale='' @ replace_first CHR ''x'' '':'' (resolution st),
      ''-r'', String_int (framerate st),
      ''-b:v'', String_int (bitrate st) @ ''k'',
      ''-c:a'', ''copy'']
     @ (if audioMono st then [''-ac'', ''1''] else [])
     @ [''output.mp4'']"

definition js_gt :: "int option \<Rightarrow> int \<Rightarrow> bool" where
  \<comment> \<open>\<open>x > n\<close>, false when \<open>x\<close> is \<open>NaN\<close>.\<close>
  "js_gt x n = (case x of None \<Rightarrow> False | Some v \<Rightarrow> v > n)"

definition exceeds_full_hd :: "OutputSettings \<Rightarrow> bool" where
  "exceeds_full_hd st =
     (let parts = split_on CHR ''x'' (resolution st);
          w = parseInt (nth_or_undefined parts 0);
          h = parseInt (nth_or_undefined parts 1)
      in js_gt w 1920 \<or> js_gt h 1080)"

definition performAnalysis ::
    "TranscoderProps \<Rightarrow> VideoAnalysis option \<Rightarrow> TranscoderState \<Rightarrow> TranscoderState" where
  \<comment> \<open>The analysis effect; the metadata read is the environment's, its result an argument.\<close>
  "performAnalysis P analysis s =
     (if resolution (settings P) = [] then s
      else s\<lparr>videoAnalysis := analysis,
             ffmpegCommand := (if analysis \<noteq> None
                               then generateFFmpegCommand (inputFile P) (settings P)
                               else [])\<rparr>)"

definition on_log :: "string \<Rightarrow> TranscoderState \<Rightarrow> TranscoderState" where
  "on_log message s = s\<lparr>logMessages := logMessages s @ [message]\<rparr>"

definition timer_delay :: "real option \<Rightarrow> real" where
  \<comment> \<open>\<open>setTimeout\<close> runs a callback whose delay is negative or not finite without delay.\<close>
  "timer_delay d = (case d of None \<Rightarrow> 0 | Some x \<Rightarrow> max 0 x)"

definition failed_message :: string where
  "failed_message = ''Transcoding failed. Try reducing video length or quality settings.''"

definition full_hd_message :: string where
  "full_hd_message = ''Maximum full HD resolution (1920x1080) supported only.''"

subsection \<open>Transcoder.tsx: the watchdog as an effect\<close>

definition stuck_message :: string where
  "stuck_message = ''FFmpeg appears stuck. Try with single thread transcoding.''"

definition on_progress :: "real \<Rightarrow> TranscoderState \<Rightarrow> TranscoderState" where
  "on_progress progressFloat s =
     (if progressFloat \<ge> 0 \<and> progressFloat \<le> 1 then s\<lparr>progress := progressFloat * 100\<rparr> else s)"

definition watchdog_duration :: "TranscoderProps \<Rightarrow> TranscoderState \<Rightarrow> real option" where
  \<comment> \<open>The component's \<open>duration\<close> constant.\<close>
  "watchdog_duration P s =
     (case videoAnalysis s of
        None \<Rightarrow> Some 60
      | Some a \<Rightarrow> calcTimeoutPerHalfPercent a (settings P) False)"

definition watchdog_deps :: "TranscoderProps \<Rightarrow> TranscoderState \<Rightarrow> real option \<times> nat \<times> bool" where
  "watchdog_deps P s = (watchdog_duration P s, length (logMessages s), isTranscoding s)"

definition watchdog_effect ::
    "TranscoderProps \<Rightarrow> TranscoderState \<Rightarrow> TranscoderState \<Rightarrow> TranscoderState" where
  \<comment> \<open>After a render in which a dependency changed: the cleanup clears the timer, then
      the effect arms a new one if the job is running.\<close>
  "watchdog_effect P before after =
     (if watchdog_deps P before = watchdog_deps P after then after
      else after\<lparr>timer := (if isTranscoding after
                             then Some (timer_delay (watchdog_duration P after))
                             else None)\<rparr>)"

definition watchdog_fired :: "TranscoderState \<Rightarrow> TranscoderState" where
  "watchdog_fired s = s\<lparr>error := Some stuck_message, isTranscoding := False, timer := None\<rparr>"

definition transcode :: "TranscoderProps \<Rightarrow> unit settled \<Rightarrow> TranscoderState \<Rightarrow> TranscoderState" where
  \<comment> \<open>\<open>transcode\<close> up to \<open>await ffmpeg.exec(args)\<close>; the second argument is how
      \<open>ffmpeg.writeFile\<close> settles. The write settles within the step of the click: no
      time passes between the click and the call of \<open>exec\<close>.\<close>
  "transcode P written s =
     (if \<not> isLoaded s \<or> isTranscoding s \<or> videoAnalysis s = None then s
      else if exceeds_full_hd (settings P) then s\<lparr>error := Some full_hd_message\<rparr>
      else
        (let s1 = s\<lparr>isTranscoding := True, progress := 0, outputUrl := None,
                    error := None, logMessages := []\<rparr>;
             inputFilename = inputFilename_of (inputFile P);
             s2 = s1\<lparr>calls := calls s1 @ [WriteFile inputFilename]\<rparr>
         in case written of
              Rejects m \<Rightarrow> s2\<lparr>error := Some failed_message, isTranscoding := False\<rparr>
            | Resolves u \<Rightarrow>
                s2\<lparr>calls := calls s2 @ [Exec (transcode_args inputFilename (settings P))],
                   inFlight := inFlight s2 + 1\<rparr>))"

definition transcode_resolved :: "bytes settled \<Rightarrow> TranscoderState \<Rightarrow> TranscoderState" where
  \<comment> \<open>After \<open>await ffmpeg.exec(args)\<close> resolved; the argument is how \<open>readFile\<close> settles.\<close>
  "transcode_resolved rd s =
     (let s1 = s\<lparr>inFlight := inFlight s - 1, calls := calls s @ [ReadFile ''output.mp4'']\<rparr>
      in case rd of
           Resolves data \<Rightarrow> s1\<lparr>outputUrl := Some data, isTranscoding := False\<rparr>
         | Rejects m \<Rightarrow> s1\<lparr>error := Some failed_message, isTranscoding := False\<rparr>)"

definition transcode_rejected :: "string \<Rightarrow> TranscoderState \<Rightarrow> TranscoderState" where
  "transcode_rejected m s =
     s\<lparr>inFlight := inFlight s - 1, error := Some failed_message, isTranscoding := False\<rparr>"

fun dispatch :: "TranscoderProps \<Rightarrow> Event \<Rightarrow> TranscoderState \<Rightarrow> TranscoderState" where
  "dispatch P (Click written) s = transcode P written s"
| "dispatch P (LogEvent m) s = on_log m s"
| "dispatch P (ProgressEvent p) s = on_progress p s"
| "dispatch P (ExecResolved rd) s = (if inFlight s = 0 then s else transcode_resolved rd s)"
| "dispatch P (ExecRejected m) s = (if inFlight s = 0 then s else transcode_rejected m s)"
| "dispatch P (Analysed a) s = performAnalysis P a s"

definition elapse :: "real \<Rightarrow> TranscoderState \<Rightarrow> TranscoderState" where
  \<comment> \<open>Time \<open>dt\<close> passes: a pending timer that is due runs its callback.\<close>
  "elapse dt s =
     (case timer s of
        None \<Rightarrow> s
      | Some r \<Rightarrow> if r \<le> dt then watchdog_fired s else s\<lparr>timer := Some (r - dt)\<rparr>)"

definition step :: "TranscoderProps \<Rightarrow> TranscoderState \<Rightarrow> real \<times> Event \<Rightarrow> TranscoderState" where
  \<comment> \<open>An event that arrives \<open>fst de\<close> after the previous one.\<close>
  "step P s de =
     (let s1 = elapse (fst de) s; s2 = dispatch P (snd de) s1 in watchdog_effect P s1 s2)"

definition run :: "TranscoderProps \<Rightarrow> (real \<times> Event) list \<Rightarrow> TranscoderState \<Rightarrow> TranscoderState" where
  "run P evs s = foldl (step P) s evs"

subsection \<open>Transcoder.tsx: the watchdog in a ref\<close>

definition timeout_message :: string where
  "timeout_message = ''Processing timeout. Try a shorter video or lower quality settings.''"

definition clear_timeoutRef :: "TranscoderState \<Rightarrow> TranscoderState" where
  \<comment> \<open>\<open>if (timeoutRef.current) { clearTimeout(timeoutRef.current); timeoutRef.current = null }\<close>\<close>
  "clear_timeoutRef s = (if timeoutRef s then s\<lparr>timer := None, timeoutRef := False\<rparr> else s)"

definition on_progress_ref :: "real \<Rightarrow> TranscoderState \<Rightarrow> TranscoderState" where
  "on_progress_ref p s =
     (if p \<ge> 0 \<and> p \<le> 1 then clear_timeoutRef (s\<lparr>progress := p * 100\<rparr>) else s)"

definition timeoutDuration :: "VideoAnalysis \<Rightarrow> real" where
  "timeoutDuration a =
     (let processingMultiplier =
            (if scaleFactor a > 2.5 then 8 else if scaleFactor a > 1.5 then 6 else 4);
          baseTimeout = 120000
      in min (duration a * processingMultiplier * 1000 + baseTimeout) 600000)"

definition startTimeout :: "real \<Rightarrow> TranscoderState \<Rightarrow> TranscoderState" where
  "startTimeout d s = s\<lparr>timer := Some (timer_delay (Some d)), timeoutRef := True\<rparr>"

definition timeout_fired :: "TranscoderState \<Rightarrow> TranscoderState" where
  \<comment> \<open>The callback of \<open>startTimeout\<close>; it leaves \<open>timeoutRef.current\<close> as it is.\<close>
  "timeout_fired s = s\<lparr>error := Some timeout_message, isTranscoding := False, timer := None\<rparr>"

definition transcode_ref ::
    "TranscoderProps \<Rightarrow> unit settled \<Rightarrow> TranscoderState \<Rightarrow> TranscoderState" where
  "transcode_ref P written s =
     (case videoAnalysis s of
        None \<Rightarrow> s
      | Some a \<Rightarrow>
          if \<not> isLoaded s \<or> isTranscoding s then s
          else if exceeds_full_hd (settings P) then s\<lparr>error := Some full_hd_message\<rparr>
          else
            (let s1 = s\<lparr>isTranscoding := True, progress := 0, outputUrl := None,
                        error := None, logMessages := []\<rparr>;
                 inputFilename = inputFilename_of (inputFile P);
                 s2 = s1\<lparr>calls := calls s1 @ [WriteFile inputFilename]\<rparr>
             in case written of
                  Rejects m \<Rightarrow>
                    (clear_timeoutRef s2)\<lparr>error := Some failed_message, isTranscoding := False\<rparr>
                | Resolves u \<Rightarrow>
                    (let s3 = startTimeout (timeoutDuration a) s2
                     in s3\<lparr>calls := calls s3 @ [Exec (transcode_args inputFilename (settings P))],
                           inFlight := inFlight s3 + 1\<rparr>)))"

definition transcode_ref_resolved :: "bytes settled \<Rightarrow> TranscoderState \<Rightarrow> TranscoderState" where
  "transcode_ref_resolved rd s =
     (let s0 = clear_timeoutRef s;
          s1 = s0\<lparr>inFlight := inFlight s0 - 1, calls := calls s0 @ [ReadFile ''output.mp4'']\<rparr>
      in case rd of
           Resolves data \<Rightarrow> s1\<lparr>outputUrl := Some data, isTranscoding := False\<rparr>
         | Rejects m \<Rightarrow> s1\<lparr>error := Some failed_message, isTranscoding := False\<rparr>)"

definition transcode_ref_rejected :: "string \<Rightarrow> TranscoderState \<Rightarrow> TranscoderState" where
  "transcode_ref_rejected m s =
     (let s0 = clear_timeoutRef s
      in s0\<lparr>inFlight := inFlight s0 - 1, error := Some failed_message, isTranscoding := False\<rparr>)"

fun dispatch_ref :: "TranscoderProps \<Rightarrow> Event \<Rightarrow> TranscoderState \<Rightarrow> TranscoderState" where
  "dispatch_ref P (Click written) s = transcode_ref P written s"
| "dispatch_ref P (LogEvent m) s = on_log m s"
| "dispatch_ref P (ProgressEvent p) s = on_progress_ref p s"
| "dispatch_ref P (ExecResolved rd) s = (if inFlight s = 0 then s else transcode_ref_resolved rd s)"
| "dispatch_ref P (ExecRejected m) s = (if inFlight s = 0 then s else transcode_ref_rejected m s)"
| "dispatch_ref P (Analysed a) s = performAnalysis P a s"

definition elapse_ref :: "real \<Rightarrow> TranscoderState \<Rightarrow> TranscoderState" where
  "elapse_ref dt s =
     (case timer s of
        None \<Rightarrow> s
      | Some r \<Rightarrow> if r \<le> dt then timeout_fired s else s\<lparr>timer := Some (r - dt)\<rparr>)"

definition step_ref :: "TranscoderProps \<Rightarrow> TranscoderState \<Rightarrow> real \<times> Event \<Rightarrow> TranscoderState" where
  "step_ref P s de = dispatch_ref P (snd de) (elapse_ref (fst de) s)"

definition run_ref ::
    "TranscoderProps \<Rightarrow> (real \<times> Event) list \<Rightarrow> TranscoderState \<Rightarrow> TranscoderState" where
  "run_ref P evs s = foldl (step_ref P) s evs"

subsection \<open>SingleThreadedTranscoder.tsx\<close>

definition corrupted_message :: string where
  "corrupted_message = ''Transcoding failed. The file may be corrupted or unsupported.''"

definition caught_single :: "string \<Rightarrow> TranscoderState \<Rightarrow> TranscoderState" where
  \<comment> \<open>The \<open>catch\<close> and \<open>finally\<close> blocks of the single-threaded \<open>transcode\<close>.\<close>
  "caught_single m s =
     (let s1 = (if m \<noteq> [] \<and> \<not> sublist ''Transcoding terminated'' m
                then s\<lparr>error := Some corrupted_message, isTranscoding := False\<rparr> else s)
      in s1\<lparr>isTranscoding := False\<rparr>)"

definition transcode_single ::
    "TranscoderProps \<Rightarrow> unit settled \<Rightarrow> TranscoderState \<Rightarrow> TranscoderState" where
  "transcode_single P written s =
     (if \<not> isLoaded s \<or> isTranscoding s \<or> videoAnalysis s = None then s
      else
        (let s1 = s\<lparr>isTranscoding := True, progress := 0, outputUrl := None,
                    error := None, logMessages := []\<rparr>;
             inputFilename = inputFilename_of (inputFile P);
             s2 = s1\<lparr>calls := calls s1 @ [WriteFile inputFilename]\<rparr>
         in case written of
              Rejects m \<Rightarrow> caught_single m s2
            | Resolves u \<Rightarrow>
                s2\<lparr>calls := calls s2 @ [Exec (transcode_args inputFilename (settings P))],
                   inFlight := inFlight s2 + 1\<rparr>))"

section \<open>TranscoderDebug.tsx\<close>

datatype Status = Pending | Success | Failed | Timeout

record DebugResult =
  result_resolution :: string
  status :: Status
  logs :: "string list"
  result_duration :: "real option"

text \<open>
  \<open>ffmpeg.on("log", f)\<close> adds \<open>f\<close> to the engine's log callbacks and nothing removes one:
  the engine calls every registered callback, in order of registration, for each log
  line. A callback of \<open>runDebugTest\<close> is a closure over its trial's \<open>res\<close> and its trial's
  \<open>currentLogs\<close> array, so the engine's callbacks are kept as a list of such pairs; the
  array of the trial in progress belongs to the callback registered last.
\<close>

record DebugState =
  debug_isLoaded :: bool
  isTesting :: bool
  debugResults :: "DebugResult list"
  logCallbacks :: "(string \<times> string list) list"
  debug_calls :: "EngineCall list"
  debug_inFlight :: nat

datatype TrialOutcome = ExecSettles "unit settled" | TimerWins

record TrialRun =
  emitted :: "string list"
  outcome :: TrialOutcome
  elapsed_seconds :: real

definition TEST_RESOLUTIONS :: "string list" where
  "TEST_RESOLUTIONS = [''1920x1080'', ''1280x720'', ''854x480'', ''640x360'']"

definition toFixed2 :: "real \<Rightarrow> real" where
  \<comment> \<open>\<open>parseFloat(x.toFixed(2))\<close>\<close>
  "toFixed2 x = real_of_int (round (x * 100)) / 100"

definition update_result :: "string \<Rightarrow> (DebugResult \<Rightarrow> DebugResult) \<Rightarrow> DebugResult list \<Rightarrow> DebugResult list" where
  \<comment> \<open>\<open>prev.map((r) => r.resolution === res ? f(r) : r)\<close>\<close>
  "update_result res f prev = map (\<lambda>r. if result_resolution r = res then f r else r) prev"

fun deliver_log ::
    "string \<Rightarrow> (string \<times> string list) list \<Rightarrow> DebugResult list
      \<Rightarrow> (string \<times> string list) list \<times> DebugResult list" where
  \<comment> \<open>One log line reaches every registered callback: each pushes it on its own array and
      stores a copy of that array in the result of its own resolution.\<close>
  "deliver_log message [] results = ([], results)"
| "deliver_log message ((res, currentLogs) # cbs) results =
     (let currentLogs' = currentLogs @ [message];
          results' = update_result res (\<lambda>r. r\<lparr>logs := currentLogs'\<rparr>) results;
          (cbs', results'') = deliver_log message cbs results'
      in ((res, currentLogs') # cbs', results''))"

definition emit_log :: "DebugState \<Rightarrow> string \<Rightarrow> DebugState" where
  "emit_log d message =
     (let (cbs, results) = deliver_log message (logCallbacks d) (debugResults d)
      in d\<lparr>logCallbacks := cbs, debugResults := results\<rparr>)"

definition currentLogs_of :: "DebugState \<Rightarrow> string list" where
  "currentLogs_of d = (case rev (logCallbacks d) of [] \<Rightarrow> [] | (res, cl) # _ \<Rightarrow> cl)"

definition debug_args :: "string \<Rightarrow> string \<Rightarrow> string list" where
  "debug_args inputFilename res =
     [''-i'', inputFilename,
      ''-t'', ''30'',
      ''-vf'', ''scale='' @ replace_first CHR ''x'' '':'' res,
      ''-c:v'', ''libx264'',
      ''-preset'', ''ultrafast'',
      ''-an'',
      ''output_'' @ res @ ''.mp4'']"

definition caught_trial :: "string \<Rightarrow> string \<Rightarrow> real \<Rightarrow> DebugState \<Rightarrow> DebugState" where
  \<comment> \<open>The \<open>catch\<close> block of one trial, for an error with message \<open>m\<close>.\<close>
  "caught_trial res m secs d =
     d\<lparr>debugResults :=
         update_result res
           (\<lambda>r. r\<lparr>status := (if m = ''Timeout'' then Timeout else Failed),
                  logs := currentLogs_of d @ [''ERROR: '' @ m],
                  result_duration := Some (toFixed2 secs)\<rparr>)
           (debugResults d)\<rparr>"

definition run_trial :: "string \<Rightarrow> string \<Rightarrow> TrialRun \<Rightarrow> DebugState \<Rightarrow> DebugState" where
  \<comment> \<open>One iteration of the loop of \<open>runDebugTest\<close>.\<close>
  "run_trial inputFilename res t d =
     (let d1 = d\<lparr>logCallbacks := logCallbacks d @ [(res, [])]\<rparr>;
          d2 = d1\<lparr>debug_calls := debug_calls d1 @ [Exec (debug_args inputFilename res)],
                  debug_inFlight := debug_inFlight d1 + 1\<rparr>;
          d3 = foldl emit_log d2 (emitted t)
      in case outcome t of
           ExecSettles (Resolves u) \<Rightarrow>
             d3\<lparr>debug_inFlight := debug_inFlight d3 - 1,
                debugResults :=
                  update_result res
                    (\<lambda>r. r\<lparr>status := Success,
                           result_duration := Some (toFixed2 (elapsed_seconds t))\<rparr>)
                    (debugResults d3)\<rparr>
         | ExecSettles (Rejects m) \<Rightarrow>
             caught_trial res m (elapsed_seconds t) (d3\<lparr>debug_inFlight := debug_inFlight d3 - 1\<rparr>)
         | TimerWins \<Rightarrow> caught_trial res ''Timeout'' (elapsed_seconds t) d3)"

fun run_trials ::
    "string \<Rightarrow> (nat \<Rightarrow> TrialRun) \<Rightarrow> nat \<Rightarrow> string list \<Rightarrow> DebugState \<Rightarrow> DebugState" where
  \<comment> \<open>The \<open>for\<close> loop from index \<open>i\<close> on; \<open>env i\<close> is what the engine does in trial \<open>i\<close>.\<close>
  "run_trials inputFilename env i [] d = d"
| "run_trials inputFilename env i (res # rs) d =
     run_trials inputFilename env (Suc i) rs (run_trial inputFilename res (env i) d)"

definition runDebugTest ::
    "File option \<Rightarrow> unit settled \<Rightarrow> (nat \<Rightarrow> TrialRun) \<Rightarrow> DebugState \<Rightarrow> DebugState" where
  \<comment> \<open>A rejected \<open>writeFile\<close> leaves the function by an exception, before the loop.\<close>
  "runDebugTest file written env d =
     (case file of
        None \<Rightarrow> d
      | Some f \<Rightarrow>
          if \<not> debug_isLoaded d \<or> isTesting d then d
          else
            (let d1 = d\<lparr>isTesting := True,
                        debugResults :=
                          map (\<lambda>res. \<lparr>result_resolution = res, status = Pending, logs = [],
                                       result_duration = None\<rparr>) TEST_RESOLUTIONS\<rparr>;
                 inputFilename = ''debug_input.'' @ pop_or (split_on CHR ''.'' (fname f)) ''mp4'';
                 d2 = d1\<lparr>debug_calls := debug_calls d1 @ [WriteFile inputFilename]\<rparr>
             in case written of
                  Rejects m \<Rightarrow> d2
                | Resolves u \<Rightarrow>
                    (run_trials inputFilename env 0 TEST_RESOLUTIONS d2)\<lparr>isTesting := False\<rparr>))"

section \<open>Concrete inputs\<close>

definition scenario_analysis :: VideoAnalysis where
  \<comment> \<open>A 1920 by 1080 input of 120 seconds, analysed for a 640x360 target.\<close>
  "scenario_analysis =
     \<lparr>inputWidth = 1920, inputHeight = 1080, scaleFactor = 3, duration = 120,
      inputFramerate = 30\<rparr>"

definition scenario_settings :: OutputSettings where
  "scenario_settings =
     \<lparr>resolution = ''640x360'', framerate = 24, bitrate = 800, audioMono = False\<rparr>"

definition wide_settings :: OutputSettings where
  \<comment> \<open>The 1080p option that the options menu offers for a 2592 by 1080 input.\<close>
  "wide_settings =
     \<lparr>resolution = ''2592x1080'', framerate = 20, bitrate = 4500, audioMono = False\<rparr>"

definition clip :: File where
  "clip = \<lparr>fname = ''clip.mp4'', ftype = ''video/mp4'', fsize = 1000000\<rparr>"

definition dotted_clip :: File where
  \<comment> \<open>A file whose name ends in a dot: its last dot-separated segment is empty.\<close>
  "dotted_clip = \<lparr>fname = ''clip.'', ftype = ''video/mp4'', fsize = 1000000\<rparr>"

definition ready_state :: TranscoderState where
  \<comment> \<open>A loaded, idle component whose analysis has completed.\<close>
  "ready_state =
     \<lparr>isLoaded = True, isTranscoding = False, progress = 0, outputUrl = None, error = None,
      videoAnalysis = Some scenario_analysis, ffmpegCommand = [], logMessages = [],
      timeoutRef = False, timer = None, calls = [], inFlight = 0\<rparr>"

definition example_props :: TranscoderProps where
  "example_props = \<lparr>inputFile = clip, settings = scenario_settings\<rparr>"

definition timed_out_ref :: TranscoderState where
  \<comment> \<open>The ref variant 600000 ms after a start during which the engine emitted nothing:
      the timeout has been reported and the engine call is still in flight.\<close>
  "timed_out_ref = elapse_ref 600000 (transcode_ref example_props (Resolves ()) ready_state)"

definition debug_ready :: DebugState where
  "debug_ready =
     \<lparr>debug_isLoaded = True, isTesting = False, debugResults = [], logCallbacks = [],
      debug_calls = [], debug_inFlight = 0\<rparr>"

definition example_trials :: "nat \<Rightarrow> TrialRun" where
  \<comment> \<open>One log line per trial; the engine call of the second trial throws.\<close>
  "example_trials i =
     (if i = 0 then \<lparr>emitted = [''a''], outcome = ExecSettles (Resolves ()), elapsed_seconds = 2\<rparr>
      else if i = 1
      then \<lparr>emitted = [''b''], outcome = ExecSettles (Rejects ''boom''), elapsed_seconds = 1\<rparr>
      else if i = 2
      then \<lparr>emitted = [''c''], outcome = ExecSettles (Resolves ()), elapsed_seconds = 2\<rparr>
      else \<lparr>emitted = [''d''], outcome = ExecSettles (Resolves ()), elapsed_seconds = 2\<rparr>)"

section \<open>Invariant of a running job\<close>



section \<open>Properties of the file input\<close>

lemma maxSizeBytes_value: "maxSizeBytes = 1610612736"
  by (simp add: maxSizeBytes_def)

text \<open>
  C9. A selected file is forwarded to the caller exactly when its MIME type starts with
  \<open>video/\<close> and its size is at most 1.5 GiB (1610612736 bytes); in every other case an
  error message is set and the caller receives null.
\<close>

theorem handleFileChange_forwards_iff:
  "(forwarded (handleFileChange (Some f)) = Some f
      \<longleftrightarrow> prefix ''video/'' (ftype f) \<and> fsize f \<le> 1610612736)
   \<and> (\<not> (prefix ''video/'' (ftype f) \<and> fsize f \<le> 1610612736)
      \<longrightarrow> error_shown (handleFileChange (Some f)) \<noteq> None
          \<and> forwarded (handleFileChange (Some f)) = None)"
  by (auto simp add: handleFileChange_def maxSizeBytes_value)

theorem handleFileChange_forwards_iff_witness:
  "forwarded (handleFileChange (Some \<lparr>fname = ''a.mp4'', ftype = ''video/mp4'', fsize = 1610612736\<rparr>))
     = Some \<lparr>fname = ''a.mp4'', ftype = ''video/mp4'', fsize = 1610612736\<rparr>
   \<and> \<not> (prefix ''video/'' (ftype \<lparr>fname = ''a.mp4'', ftype = ''video/mp4'', fsize = 1610612737\<rparr>)
        \<and> fsize \<lparr>fname = ''a.mp4'', ftype = ''video/mp4'', fsize = 1610612737\<rparr> \<le> 1610612736)
   \<and> error_shown (handleFileChange (Some \<lparr>fname = ''a.mp4'', ftype = ''video/mp4'', fsize = 1610612737\<rparr>))
        \<noteq> None
   \<and> forwarded (handleFileChange (Some \<lparr>fname = ''a.mp4'', ftype = ''video/mp4'', fsize = 1610612737\<rparr>))
        = None"
  using handleFileChange_forwards_iff
          [of "\<lparr>fname = ''a.mp4'', ftype = ''video/mp4'', fsize = 1610612736\<rparr>"]
        handleFileChange_forwards_iff
          [of "\<lparr>fname = ''a.mp4'', ftype = ''video/mp4'', fsize = 1610612737\<rparr>"]
  by simp

section \<open>Evaluation of the concrete inputs\<close>

lemma String_int_values:
  "String_int 20 = ''20''" "String_int 24 = ''24''" "String_int 800 = ''800''"
  "String_int 4500 = ''4500''"
  by (simp_all add: String_int_def String_nat.simps digits_def)

lemma outputPixels_of_scenario: "outputPixels_of scenario_settings = Some 230400"
  by (simp add: outputPixels_of_def scenario_settings_def nth_or_undefined_def Number_def
      digit_value_def)

lemma complexity_scenario: "complexity scenario_analysis scenario_settings = Finite 1"
  by (simp add: complexity_def outputPixels_of_scenario js_div_def scenario_analysis_def)

lemma expectedSeconds_scenario: "expectedSeconds scenario_analysis scenario_settings = Some 0.6"
  by (simp add: expectedSeconds_def complexity_scenario) (simp add: scenario_analysis_def)

lemma calcTimeout_scenario:
  "calcTimeoutPerHalfPercent scenario_analysis scenario_settings False = Some 2400"
  "calcTimeoutPerHalfPercent scenario_analysis scenario_settings True = Some 4800"
  by (simp_all add: calcTimeoutPerHalfPercent_def expectedSeconds_scenario)

lemma clamped_scenario:
  "calcTimeoutPerHalfPercent_clamped scenario_analysis scenario_settings = 43200"
  by (simp add: calcTimeoutPerHalfPercent_clamped_def outputPixels_of_scenario
      scenario_analysis_def timeoutFloor_def timeoutCeiling_def)

lemma exceeds_full_hd_wide: "exceeds_full_hd wide_settings"
  by (simp add: exceeds_full_hd_def wide_settings_def parseInt_def nth_or_undefined_def
      js_gt_def digit_value_def is_white_space_def)

lemma exceeds_full_hd_scenario: "\<not> exceeds_full_hd scenario_settings"
  by (simp add: exceeds_full_hd_def scenario_settings_def parseInt_def nth_or_undefined_def
      js_gt_def digit_value_def is_white_space_def)

section \<open>Properties of the timeout estimator\<close>











text \<open>
  C5, as the claim states it, fails: in the scenario no estimator returns the floor of
  10000 ms. The estimator of lib/videoAnalysis has no floor, and the clamped variant, which
  divides input by output pixels, returns 43200 ms.
\<close>

theorem scenario_budget_is_not_floor_counterexample:
  "calcTimeoutPerHalfPercent scenario_analysis scenario_settings False \<noteq> Some timeoutFloor
   \<and> calcTimeoutPerHalfPercent scenario_analysis scenario_settings True \<noteq> Some timeoutFloor
   \<and> calcTimeoutPerHalfPercent_clamped scenario_analysis scenario_settings \<noteq> timeoutFloor"
  by (simp add: calcTimeout_scenario clamped_scenario timeoutFloor_def)

text \<open>
  C5, amended. For the input of 1920 by 1080 pixels and 120 s with target 640x360, bitrate
  800 and frame rate 24, the estimator of lib/videoAnalysis computes complexity 1 and 0.6
  expected seconds, and returns 2400 ms in multi-threaded mode and 4800 ms in
  single-threaded mode.
\<close>

theorem scenario_budget:
  "complexity scenario_analysis scenario_settings = Finite 1
   \<and> expectedSeconds scenario_analysis scenario_settings = Some 0.6
   \<and> calcTimeoutPerHalfPercent scenario_analysis scenario_settings False = Some 2400
   \<and> calcTimeoutPerHalfPercent scenario_analysis scenario_settings True = Some 4800"
  by (simp add: complexity_scenario expectedSeconds_scenario calcTimeout_scenario)

section \<open>Properties of the command string\<close>

lemma split_on_not_Nil: "split_on c s \<noteq> []"
  by (induction s) (auto split: list.splits)

lemma pop_or_last: "parts \<noteq> [] \<Longrightarrow> last parts \<noteq> [] \<Longrightarrow> pop_or parts fallback = last parts"
  unfolding pop_or_def by (cases parts rule: rev_cases) auto

lemma command_string_matches_args:
  "last (split_on CHR ''.'' (fname f)) \<noteq> [] \<Longrightarrow>
     generateFFmpegCommand f st
       = ''ffmpeg '' @ join '' '' (transcode_args (inputFilename_of f) st)"
  unfolding generateFFmpegCommand_def transcode_args_def inputFilename_of_def Let_def
  by (simp add: pop_or_last [OF split_on_not_Nil])

text \<open>
  C8. The command string shown to the user should be the rendering of the argument list
  passed to the engine. For a file whose name ends in a dot the two differ: the string
  shown names the input \<open>input.mp4\<close>, the argument list passed to the engine \<open>input.tmp\<close>.
\<close>

theorem command_string_differs_for_empty_extension:
  "generateFFmpegCommand dotted_clip scenario_settings
     = ''ffmpeg -i input.mp4 -c:v libx264 -preset ultrafast -vf scale=640:360 -r 24 -b:v 800k -c:a copy output.mp4''
   \<and> ''ffmpeg '' @ join '' '' (transcode_args (inputFilename_of dotted_clip) scenario_settings)
     = ''ffmpeg -i input.tmp -c:v libx264 -preset ultrafast -vf scale=640:360 -r 24 -b:v 800k -c:a copy output.mp4''
   \<and> calls (transcode_single \<lparr>inputFile = dotted_clip, settings = scenario_settings\<rparr>
                (Resolves ()) ready_state)
     = [WriteFile ''input.tmp'',
        Exec (transcode_args (inputFilename_of dotted_clip) scenario_settings)]"
  by (simp add: generateFFmpegCommand_def transcode_args_def inputFilename_of_def
      transcode_single_def ready_state_def dotted_clip_def scenario_settings_def pop_or_def
      String_int_values Let_def)

theorem command_string_differs_for_empty_extension_witness:
  "isLoaded ready_state \<and> \<not> isTranscoding ready_state \<and> videoAnalysis ready_state \<noteq> None
   \<and> generateFFmpegCommand dotted_clip scenario_settings
       \<noteq> ''ffmpeg '' @ join '' '' (transcode_args (inputFilename_of dotted_clip) scenario_settings)"
  using command_string_differs_for_empty_extension
  by (simp add: ready_state_def)

section \<open>Properties of the resolution check\<close>

text \<open>
  C3. Settings above 1920 by 1080 should end the job before any engine call in every
  transcoder. The single-threaded transcoder has no such check: for the 2592x1080 option
  it writes the input and invokes the engine, where the multi-threaded transcoder sets the
  error and issues no call.
\<close>

theorem single_threaded_transcode_skips_resolution_check:
  "exceeds_full_hd wide_settings
   \<and> calls (transcode_single \<lparr>inputFile = clip, settings = wide_settings\<rparr> (Resolves ()) ready_state)
       = [WriteFile ''input.mp4'',
          Exec [''-i'', ''input.mp4'', ''-c:v'', ''libx264'', ''-preset'', ''ultrafast'',
                ''-vf'', ''scale=2592:1080'', ''-r'', ''20'', ''-b:v'', ''4500k'',
                ''-c:a'', ''copy'', ''output.mp4'']]
   \<and> error (transcode_single \<lparr>inputFile = clip, settings = wide_settings\<rparr> (Resolves ()) ready_state)
       = None
   \<and> calls (transcode \<lparr>inputFile = clip, settings = wide_settings\<rparr> (Resolves ()) ready_state) = []
   \<and> error (transcode \<lparr>inputFile = clip, settings = wide_settings\<rparr> (Resolves ()) ready_state)
       = Some full_hd_message"
proof -
  have single:
    "transcode_single \<lparr>inputFile = clip, settings = wide_settings\<rparr> (Resolves ()) ready_state
       = ready_state\<lparr>isTranscoding := True,
           calls := [WriteFile ''input.mp4'',
                     Exec (transcode_args ''input.mp4'' wide_settings)],
           inFlight := 1\<rparr>"
    by (simp add: transcode_single_def ready_state_def inputFilename_of_def clip_def
        pop_or_def Let_def)
  have args: "transcode_args ''input.mp4'' wide_settings
       = [''-i'', ''input.mp4'', ''-c:v'', ''libx264'', ''-preset'', ''ultrafast'',
          ''-vf'', ''scale=2592:1080'', ''-r'', ''20'', ''-b:v'', ''4500k'',
          ''-c:a'', ''copy'', ''output.mp4'']"
    by (simp add: transcode_args_def wide_settings_def String_int_values)
  have multi:
    "transcode \<lparr>inputFile = clip, settings = wide_settings\<rparr> (Resolves ()) ready_state
       = ready_state\<lparr>error := Some full_hd_message\<rparr>"
    by (simp add: transcode_def exceeds_full_hd_wide) (simp add: ready_state_def)
  show ?thesis
    unfolding single multi using exceeds_full_hd_wide args by (simp add: ready_state_def)
qed

theorem single_threaded_transcode_skips_resolution_check_witness:
  "isLoaded ready_state \<and> \<not> isTranscoding ready_state \<and> videoAnalysis ready_state \<noteq> None
   \<and> exceeds_full_hd wide_settings
   \<and> calls (transcode_single \<lparr>inputFile = clip, settings = wide_settings\<rparr> (Resolves ()) ready_state)
       \<noteq> []
   \<and> calls (transcode \<lparr>inputFile = clip, settings = wide_settings\<rparr> (Resolves ()) ready_state) = []"
  using single_threaded_transcode_skips_resolution_check
  by (simp add: ready_state_def)

section \<open>Properties of the resolution options\<close>

lemma resolutionOptions_loop_sound:
  "opt \<in> set (resolutionOptions_loop a iw ih hs) \<Longrightarrow>
     even (width opt) \<and> real_of_int (height opt) \<le> ih \<and> real_of_int (width opt) \<le> iw"
proof (induction hs)
  case Nil
  then show ?case by simp
next
  case (Cons h hs)
  then show ?case
    by (auto simp add: Let_def option_width_def split: if_splits)
qed

text \<open>
  C10. Every option of the dimension-aware generator has an even width and does not
  upscale: its height is at most the input height and its width at most the input width,
  whatever the aspect ratio and the input dimensions.
\<close>

theorem generateResolutionOptions_even_no_upscale:
  "\<forall>opt \<in> set (generateResolutionOptions aspectRatio inW inH).
     even (width opt) \<and> real_of_int (height opt) \<le> inH
       \<and> real_of_int (width opt) \<le> inW"
  unfolding generateResolutionOptions_def
  using resolutionOptions_loop_sound by blast

theorem generateResolutionOptions_even_no_upscale_witness:
  "\<lparr>label = ''1440x1080'', width = 1440, height = 1080, option_bitrate = 4500\<rparr>
     \<in> set (generateResolutionOptions (4 / 3) 1440 1080)
   \<and> even (width \<lparr>label = ''1440x1080'', width = 1440, height = 1080, option_bitrate = 4500\<rparr>)
   \<and> real_of_int (height \<lparr>label = ''1440x1080'', width = 1440, height = 1080, option_bitrate = 4500\<rparr>)
       \<le> 1080
   \<and> real_of_int (width \<lparr>label = ''1440x1080'', width = 1440, height = 1080, option_bitrate = 4500\<rparr>)
       \<le> 1440"
proof -
  have mem: "\<lparr>label = ''1440x1080'', width = 1440, height = 1080, option_bitrate = 4500\<rparr>
               \<in> set (generateResolutionOptions (4 / 3) 1440 1080)"
    by (simp add: generateResolutionOptions_def standardHeights_def option_width_def
        suggestedBitrate_def String_int_def String_nat.simps digits_def)
  from generateResolutionOptions_even_no_upscale [of "4 / 3" 1440 1080] mem
  show ?thesis by blast
qed

section \<open>Properties of the watchdog\<close>








lemma run_Cons: "run P (e # evs) s = run P evs (step P s e)"
  by (simp add: run_def)

lemma run_append: "run P (evs @ evs') s = run P evs' (run P evs s)"
  by (simp add: run_def)

lemma ready_state_fields:
  "isLoaded ready_state" "\<not> isTranscoding ready_state" "timer ready_state = None"
  "videoAnalysis ready_state = Some scenario_analysis" "inFlight ready_state = 0"
  "error ready_state = None" "outputUrl ready_state = None" "calls ready_state = []"
  by (simp_all add: ready_state_def)

lemma example_props_fields:
  "settings example_props = scenario_settings" "inputFile example_props = clip"
  by (simp_all add: example_props_def)




section \<open>Properties of a late engine outcome and of a second start\<close>


lemma timeoutDuration_scenario: "timeoutDuration scenario_analysis = 600000"
  by (simp add: timeoutDuration_def scenario_analysis_def)

lemma transcode_ref_ready:
  "transcode_ref example_props (Resolves ()) ready_state
     = ready_state\<lparr>isTranscoding := True, timeoutRef := True, timer := Some 600000,
         calls := [WriteFile (inputFilename_of clip),
                   Exec (transcode_args (inputFilename_of clip) scenario_settings)],
         inFlight := 1\<rparr>"
  by (simp add: transcode_ref_def ready_state_fields example_props_fields
      exceeds_full_hd_scenario Let_def startTimeout_def timer_delay_def timeoutDuration_scenario)
     (simp add: ready_state_def)

lemma timed_out_ref_eq:
  "timed_out_ref
     = ready_state\<lparr>isTranscoding := False, error := Some timeout_message, timeoutRef := True,
         timer := None,
         calls := [WriteFile (inputFilename_of clip),
                   Exec (transcode_args (inputFilename_of clip) scenario_settings)],
         inFlight := 1\<rparr>"
  unfolding timed_out_ref_def transcode_ref_ready
  by (simp add: elapse_ref_def timeout_fired_def)

lemma timed_out_ref_fields:
  "error timed_out_ref = Some timeout_message" "\<not> isTranscoding timed_out_ref"
  "outputUrl timed_out_ref = None" "inFlight timed_out_ref = 1" "isLoaded timed_out_ref"
  "videoAnalysis timed_out_ref = Some scenario_analysis" "timer timed_out_ref = None"
  "calls timed_out_ref = [WriteFile (inputFilename_of clip),
                   Exec (transcode_args (inputFilename_of clip) scenario_settings)]"
  unfolding timed_out_ref_eq by (simp_all add: ready_state_def)

text \<open>
  C2, amended. When the timeout has been reported and the engine call settles afterwards,
  \<open>isTranscoding\<close> stays false, but the outcome is not discarded: a late resolution reads
  the output and surfaces it next to the timeout message, and a late rejection replaces
  the timeout message by the failure message.
\<close>

theorem late_engine_outcome_is_surfaced:
  assumes "0 < inFlight s" and "error s = Some timeout_message" and "\<not> isTranscoding s"
  shows "outputUrl (dispatch_ref P (ExecResolved (Resolves data)) s) = Some data
       \<and> error (dispatch_ref P (ExecResolved (Resolves data)) s) = Some timeout_message
       \<and> \<not> isTranscoding (dispatch_ref P (ExecResolved (Resolves data)) s)
       \<and> error (dispatch_ref P (ExecRejected m) s) = Some failed_message
       \<and> \<not> isTranscoding (dispatch_ref P (ExecRejected m) s)"
  using assms
  by (simp add: transcode_ref_resolved_def transcode_ref_rejected_def clear_timeoutRef_def Let_def)

theorem late_engine_outcome_is_surfaced_witness:
  "0 < inFlight timed_out_ref \<and> error timed_out_ref = Some timeout_message
   \<and> \<not> isTranscoding timed_out_ref
   \<and> outputUrl (dispatch_ref example_props (ExecResolved (Resolves [1, 2, 3])) timed_out_ref)
        = Some [1, 2, 3]
   \<and> error (dispatch_ref example_props (ExecRejected ''abort'') timed_out_ref)
        = Some failed_message"
proof -
  have h: "0 < inFlight timed_out_ref" "error timed_out_ref = Some timeout_message"
    "\<not> isTranscoding timed_out_ref"
    by (simp_all add: timed_out_ref_fields)
  from late_engine_outcome_is_surfaced [OF h, of example_props "[1, 2, 3]" "''abort''"] h
  show ?thesis by blast
qed

text \<open>
  C2, as the claim states it, fails: in the state in which the timeout has been reported,
  the later resolution of the engine call sets the output, and a later rejection changes
  the error message.
\<close>

theorem late_resolution_after_timeout_counterexample:
  "error timed_out_ref = Some timeout_message \<and> \<not> isTranscoding timed_out_ref
   \<and> outputUrl timed_out_ref = None
   \<and> outputUrl (dispatch_ref example_props (ExecResolved (Resolves [1, 2, 3])) timed_out_ref)
        = Some [1, 2, 3]
   \<and> error (dispatch_ref example_props (ExecRejected ''abort'') timed_out_ref)
        \<noteq> error timed_out_ref"
  by (simp add: timed_out_ref_fields transcode_ref_resolved_def transcode_ref_rejected_def
      clear_timeoutRef_def Let_def failed_message_def timeout_message_def)

lemma run_ref_Cons: "run_ref P (e # evs) s = run_ref P evs (step_ref P s e)"
  by (simp add: run_ref_def)

text \<open>
  C7, as the claim states it, fails: the timeout clears \<open>isTranscoding\<close> while the engine
  call is still in flight, so a start after the timeout invokes the engine a second time
  and two invocations are in flight.
\<close>

theorem second_invocation_after_timeout_counterexample:
  "inFlight (run_ref example_props
               [(0, Click (Resolves ())), (600000, Click (Resolves ()))] ready_state) = 2
   \<and> calls (run_ref example_props
               [(0, Click (Resolves ())), (600000, Click (Resolves ()))] ready_state)
       = [WriteFile ''input.mp4'',
          Exec (transcode_args ''input.mp4'' scenario_settings),
          WriteFile ''input.mp4'',
          Exec (transcode_args ''input.mp4'' scenario_settings)]"
proof -
  have fn: "inputFilename_of clip = ''input.mp4''"
    by (simp add: inputFilename_of_def clip_def pop_or_def)
  have s1: "step_ref example_props ready_state (0, Click (Resolves ()))
              = transcode_ref example_props (Resolves ()) ready_state"
    by (simp add: step_ref_def elapse_ref_def ready_state_fields)
  have s2: "step_ref example_props (transcode_ref example_props (Resolves ()) ready_state)
              (600000, Click (Resolves ()))
              = transcode_ref example_props (Resolves ()) timed_out_ref"
    by (simp add: step_ref_def timed_out_ref_def)
  have s3: "inFlight (transcode_ref example_props (Resolves ()) timed_out_ref) = 2
     \<and> calls (transcode_ref example_props (Resolves ()) timed_out_ref)
       = [WriteFile ''input.mp4'',
          Exec (transcode_args ''input.mp4'' scenario_settings),
          WriteFile ''input.mp4'',
          Exec (transcode_args ''input.mp4'' scenario_settings)]"
    by (simp add: transcode_ref_def timed_out_ref_fields example_props_fields
      exceeds_full_hd_scenario Let_def startTimeout_def fn)
  show ?thesis by (simp add: run_ref_def s1 s2 s3)
qed

text \<open>
  C7, amended. A start issued while \<open>isTranscoding\<close> (for the diagnostic runner
  \<open>isTesting\<close>) is true returns without invoking the engine and without any other change of
  state, in every transcoder and in the diagnostic runner.
\<close>

theorem start_while_busy_is_rejected:
  "(isTranscoding s \<longrightarrow>
       transcode P w s = s \<and> transcode_ref P w s = s \<and> transcode_single P w s = s)
   \<and> (isTesting d \<longrightarrow> runDebugTest f w env d = d)"
  by (simp add: transcode_def transcode_ref_def transcode_single_def runDebugTest_def
      split: option.splits)

theorem start_while_busy_is_rejected_witness:
  "isTranscoding (ready_state\<lparr>isTranscoding := True\<rparr>)
   \<and> transcode example_props (Resolves ()) (ready_state\<lparr>isTranscoding := True\<rparr>)
       = ready_state\<lparr>isTranscoding := True\<rparr>
   \<and> transcode_ref example_props (Resolves ()) (ready_state\<lparr>isTranscoding := True\<rparr>)
       = ready_state\<lparr>isTranscoding := True\<rparr>
   \<and> transcode_single example_props (Resolves ()) (ready_state\<lparr>isTranscoding := True\<rparr>)
       = ready_state\<lparr>isTranscoding := True\<rparr>
   \<and> isTesting (debug_ready\<lparr>isTesting := True\<rparr>)
   \<and> runDebugTest (Some clip) (Resolves ()) example_trials (debug_ready\<lparr>isTesting := True\<rparr>)
       = debug_ready\<lparr>isTesting := True\<rparr>"
proof -
  have h1: "isTranscoding (ready_state\<lparr>isTranscoding := True\<rparr>)" by simp
  have h2: "isTesting (debug_ready\<lparr>isTesting := True\<rparr>)" by simp
  from start_while_busy_is_rejected
         [where s = "ready_state\<lparr>isTranscoding := True\<rparr>" and P = example_props
            and w = "Resolves ()" and d = "debug_ready\<lparr>isTesting := True\<rparr>"
            and f = "Some clip" and env = example_trials]
       h1 h2
  show ?thesis by blast
qed

section \<open>Properties of the diagnostic batch runner\<close>


lemma example_trials_values:
  "example_trials 0 = \<lparr>emitted = [''a''], outcome = ExecSettles (Resolves ()), elapsed_seconds = 2\<rparr>"
  "example_trials (Suc 0) = \<lparr>emitted = [''b''], outcome = ExecSettles (Rejects ''boom''), elapsed_seconds = 1\<rparr>"
  "example_trials (Suc (Suc 0)) = \<lparr>emitted = [''c''], outcome = ExecSettles (Resolves ()), elapsed_seconds = 2\<rparr>"
  "example_trials (Suc (Suc (Suc 0))) = \<lparr>emitted = [''d''], outcome = ExecSettles (Resolves ()), elapsed_seconds = 2\<rparr>"
  by (simp_all add: example_trials_def)

lemmas trial_defs = run_trial_def Let_def emit_log_def update_result_def caught_trial_def
  currentLogs_of_def

lemma trial_0:
  assumes "debugResults d =
     [\<lparr>result_resolution = ''1920x1080'', status = Pending, logs = [], result_duration = None\<rparr>,
      \<lparr>result_resolution = ''1280x720'', status = Pending, logs = [], result_duration = None\<rparr>,
      \<lparr>result_resolution = ''854x480'', status = Pending, logs = [], result_duration = None\<rparr>,
      \<lparr>result_resolution = ''640x360'', status = Pending, logs = [], result_duration = None\<rparr>]"
    and "logCallbacks d = []"
  shows "debugResults (run_trial fn ''1920x1080'' (example_trials 0) d) =
     [\<lparr>result_resolution = ''1920x1080'', status = Success, logs = [''a''],
       result_duration = Some (toFixed2 2)\<rparr>,
      \<lparr>result_resolution = ''1280x720'', status = Pending, logs = [], result_duration = None\<rparr>,
      \<lparr>result_resolution = ''854x480'', status = Pending, logs = [], result_duration = None\<rparr>,
      \<lparr>result_resolution = ''640x360'', status = Pending, logs = [], result_duration = None\<rparr>]
    \<and> logCallbacks (run_trial fn ''1920x1080'' (example_trials 0) d) = [(''1920x1080'', [''a''])]"
  by (simp add: trial_defs example_trials_values assms)

lemma trial_1:
  assumes "debugResults d =
     [\<lparr>result_resolution = ''1920x1080'', status = Success, logs = [''a''],
       result_duration = Some (toFixed2 2)\<rparr>,
      \<lparr>result_resolution = ''1280x720'', status = Pending, logs = [], result_duration = None\<rparr>,
      \<lparr>result_resolution = ''854x480'', status = Pending, logs = [], result_duration = None\<rparr>,
      \<lparr>result_resolution = ''640x360'', status = Pending, logs = [], result_duration = None\<rparr>]"
    and "logCallbacks d = [(''1920x1080'', [''a''])]"
  shows "debugResults (run_trial fn ''1280x720'' (example_trials (Suc 0)) d) =
     [\<lparr>result_resolution = ''1920x1080'', status = Success, logs = [''a'', ''b''],
       result_duration = Some (toFixed2 2)\<rparr>,
      \<lparr>result_resolution = ''1280x720'', status = Failed, logs = [''b'', ''ERROR: boom''],
       result_duration = Some (toFixed2 1)\<rparr>,
      \<lparr>result_resolution = ''854x480'', status = Pending, logs = [], result_duration = None\<rparr>,
      \<lparr>result_resolution = ''640x360'', status = Pending, logs = [], result_duration = None\<rparr>]
    \<and> logCallbacks (run_trial fn ''1280x720'' (example_trials (Suc 0)) d)
        = [(''1920x1080'', [''a'', ''b'']), (''1280x720'', [''b''])]"
  by (simp add: trial_defs example_trials_values assms)

lemma trial_2:
  assumes "debugResults d =
     [\<lparr>result_resolution = ''1920x1080'', status = Success, logs = [''a'', ''b''],
       result_duration = Some (toFixed2 2)\<rparr>,
      \<lparr>result_resolution = ''1280x720'', status = Failed, logs = [''b'', ''ERROR: boom''],
       result_duration = Some (toFixed2 1)\<rparr>,
      \<lparr>result_resolution = ''854x480'', status = Pending, logs = [], result_duration = None\<rparr>,
      \<lparr>result_resolution = ''640x360'', status = Pending, logs = [], result_duration = None\<rparr>]"
    and "logCallbacks d = [(''1920x1080'', [''a'', ''b'']), (''1280x720'', [''b''])]"
  shows "debugResults (run_trial fn ''854x480'' (example_trials (Suc (Suc 0))) d) =
     [\<lparr>result_resolution = ''1920x1080'', status = Success, logs = [''a'', ''b'', ''c''],
       result_duration = Some (toFixed2 2)\<rparr>,
      \<lparr>result_resolution = ''1280x720'', status = Failed, logs = [''b'', ''c''],
       result_duration = Some (toFixed2 1)\<rparr>,
      \<lparr>result_resolution = ''854x480'', status = Success, logs = [''c''],
       result_duration = Some (toFixed2 2)\<rparr>,
      \<lparr>result_resolution = ''640x360'', status = Pending, logs = [], result_duration = None\<rparr>]
    \<and> logCallbacks (run_trial fn ''854x480'' (example_trials (Suc (Suc 0))) d)
        = [(''1920x1080'', [''a'', ''b'', ''c'']), (''1280x720'', [''b'', ''c'']),
           (''854x480'', [''c''])]"
  by (simp add: trial_defs example_trials_values assms)

lemma trial_3:
  assumes "debugResults d =
     [\<lparr>result_resolution = ''1920x1080'', status = Success, logs = [''a'', ''b'', ''c''],
       result_duration = Some (toFixed2 2)\<rparr>,
      \<lparr>result_resolution = ''1280x720'', status = Failed, logs = [''b'', ''c''],
       result_duration = Some (toFixed2 1)\<rparr>,
      \<lparr>result_resolution = ''854x480'', status = Success, logs = [''c''],
       result_duration = Some (toFixed2 2)\<rparr>,
      \<lparr>result_resolution = ''640x360'', status = Pending, logs = [], result_duration = None\<rparr>]"
    and "logCallbacks d = [(''1920x1080'', [''a'', ''b'', ''c'']), (''1280x720'', [''b'', ''c'']),
           (''854x480'', [''c''])]"
  shows "debugResults (run_trial fn ''640x360'' (example_trials (Suc (Suc (Suc 0)))) d) =
     [\<lparr>result_resolution = ''1920x1080'', status = Success, logs = [''a'', ''b'', ''c'', ''d''],
       result_duration = Some (toFixed2 2)\<rparr>,
      \<lparr>result_resolution = ''1280x720'', status = Failed, logs = [''b'', ''c'', ''d''],
       result_duration = Some (toFixed2 1)\<rparr>,
      \<lparr>result_resolution = ''854x480'', status = Success, logs = [''c'', ''d''],
       result_duration = Some (toFixed2 2)\<rparr>,
      \<lparr>result_resolution = ''640x360'', status = Success, logs = [''d''],
       result_duration = Some (toFixed2 2)\<rparr>]"
  by (simp add: trial_defs example_trials_values assms)

lemma runDebugTest_unfold:
  "runDebugTest (Some f) (Resolves ()) env debug_ready
     = (run_trials (''debug_input.'' @ pop_or (split_on CHR ''.'' (fname f)) ''mp4'') env 0
          TEST_RESOLUTIONS
          (debug_ready\<lparr>isTesting := True,
             debugResults := map (\<lambda>res. \<lparr>result_resolution = res, status = Pending, logs = [],
                                       result_duration = None\<rparr>) TEST_RESOLUTIONS,
             debug_calls := [WriteFile (''debug_input.'' @ pop_or (split_on CHR ''.'' (fname f)) ''mp4'')]\<rparr>))
        \<lparr>isTesting := False\<rparr>"
  by (simp add: runDebugTest_def debug_ready_def Let_def)

text \<open>
  C6. Each trial's log list should receive only the lines emitted while that trial is
  active. The log callback of a trial is never removed, so it keeps receiving the lines of
  the later trials: in a batch whose four trials emit one line each and whose second trial
  throws, the first trial's list ends with all four lines, and the failed trial's list
  loses its error line to the lines of the trials after it. The statuses are those of the
  trials' own engine calls.
\<close>

theorem debug_trial_logs_leak_across_trials:
  "map logs (debugResults (runDebugTest (Some clip) (Resolves ()) example_trials debug_ready))
     = [[''a'', ''b'', ''c'', ''d''], [''b'', ''c'', ''d''], [''c'', ''d''], [''d'']]
   \<and> map status (debugResults (runDebugTest (Some clip) (Resolves ()) example_trials debug_ready))
     = [Success, Failed, Success, Success]"
proof -
  define fn where "fn = ''debug_input.'' @ pop_or (split_on CHR ''.'' (fname clip)) ''mp4''"
  define d0 where "d0 = debug_ready\<lparr>isTesting := True,
             debugResults := map (\<lambda>res. \<lparr>result_resolution = res, status = Pending, logs = [],
                                       result_duration = None\<rparr>) TEST_RESOLUTIONS,
             debug_calls := [WriteFile fn]\<rparr>"
  define d1 where "d1 = run_trial fn ''1920x1080'' (example_trials 0) d0"
  define d2 where "d2 = run_trial fn ''1280x720'' (example_trials (Suc 0)) d1"
  define d3 where "d3 = run_trial fn ''854x480'' (example_trials (Suc (Suc 0))) d2"
  define d4 where "d4 = run_trial fn ''640x360'' (example_trials (Suc (Suc (Suc 0)))) d3"
  have r0: "debugResults d0 =
     [\<lparr>result_resolution = ''1920x1080'', status = Pending, logs = [], result_duration = None\<rparr>,
      \<lparr>result_resolution = ''1280x720'', status = Pending, logs = [], result_duration = None\<rparr>,
      \<lparr>result_resolution = ''854x480'', status = Pending, logs = [], result_duration = None\<rparr>,
      \<lparr>result_resolution = ''640x360'', status = Pending, logs = [], result_duration = None\<rparr>]"
    and c0: "logCallbacks d0 = []"
    by (simp_all add: d0_def TEST_RESOLUTIONS_def debug_ready_def)
  note s1 = trial_0 [OF r0 c0, of fn, folded d1_def]
  note s2 = trial_1 [OF conjunct1 [OF s1] conjunct2 [OF s1], of fn, folded d2_def]
  note s3 = trial_2 [OF conjunct1 [OF s2] conjunct2 [OF s2], of fn, folded d3_def]
  note s4 = trial_3 [OF conjunct1 [OF s3] conjunct2 [OF s3], of fn, folded d4_def]
  have run: "runDebugTest (Some clip) (Resolves ()) example_trials debug_ready
               = d4\<lparr>isTesting := False\<rparr>"
    unfolding runDebugTest_unfold fn_def [symmetric] d0_def [symmetric]
    by (simp add: TEST_RESOLUTIONS_def d1_def d2_def d3_def d4_def)
  show ?thesis unfolding run by (simp add: s4)
qed

theorem debug_trial_logs_leak_across_trials_witness:
  "debug_isLoaded debug_ready \<and> \<not> isTesting debug_ready
   \<and> map logs (debugResults (runDebugTest (Some clip) (Resolves ()) example_trials debug_ready))
       \<noteq> [[''a''], [''b'', ''ERROR: boom''], [''c''], [''d'']]"
  using debug_trial_logs_leak_across_trials
  by (simp add: debug_ready_def)

end
